theory Spec2Isabelle
  imports Main
begin

section \<open>JavaScript values seen by the retry engine\<close>

text \<open>
  An \<open>Error\<close> object is kept with the three fields the engine reads or writes:
  \<open>name\<close>, \<open>message\<close> and \<open>cause\<close> (the field that \<open>RetryError\<close> adds).
\<close>

datatype js_error = Error (name: string) (message: string) (cause: "js_error option")

text \<open>
  A value that an operation may return or throw. \<open>JObject i\<close> is an object that is not
  an instance of \<open>Error\<close>, known by its identity \<open>i\<close>; \<open>JError e\<close> is an instance of
  \<open>Error\<close>.
\<close>

datatype jsval =
    JUndefined
  | JNull
  | JBool bool
  | JNum int
  | JStr string
  | JObject nat
  | JError js_error

text \<open>\<open>typeof value === "object"\<close>: true of \<open>null\<close>, of objects and of errors.\<close>

fun typeof_object :: "jsval \<Rightarrow> bool" where
  "typeof_object JNull = True"
| "typeof_object (JObject i) = True"
| "typeof_object (JError e) = True"
| "typeof_object v = False"

text \<open>\<open>value == null\<close>: true of \<open>null\<close> and of \<open>undefined\<close>.\<close>

fun loosely_null :: "jsval \<Rightarrow> bool" where
  "loosely_null JNull = True"
| "loosely_null JUndefined = True"
| "loosely_null v = False"

text \<open>
  The platform functions the source calls are parameters of the model, since their code is
  not part of the repository: \<open>JSON.stringify\<close> (which may throw, may return
  \<open>undefined\<close>, or returns a string), \<open>value.constructor?.name\<close>, and \<open>String(value)\<close>,
  which returns a string (\<open>Inr\<close>) or throws (\<open>Inl\<close>, the value thrown), as it does on an
  object that has no \<open>toString\<close>.
\<close>

datatype json_result = JsonThrows jsval | JsonUndefined | Json string

record js_platform =
  JSON_stringify :: "jsval \<Rightarrow> json_result"
  constructor_name :: "jsval \<Rightarrow> string option"
  js_String :: "jsval \<Rightarrow> jsval + string"

text \<open>A number inside a template literal: its decimal digits.\<close>

fun nat_digits :: "nat \<Rightarrow> string" where
  "nat_digits n =
     (if n < 10 then [''0123456789'' ! n]
      else nat_digits (n div 10) @ [''0123456789'' ! (n mod 10)])"

declare nat_digits.simps [simp del]

definition js_num :: "int \<Rightarrow> string" where
  "js_num i = (if i < 0 then CHR ''-'' # nat_digits (nat (- i)) else nat_digits (nat i))"

section \<open>The error classes of Retry.service.ts\<close>

definition new_Error :: "string \<Rightarrow> js_error" where
  "new_Error msg = Error ''Error'' msg None"

definition RetryError :: "string \<Rightarrow> js_error option \<Rightarrow> js_error" where
  "RetryError msg c = Error ''RetryError'' msg c"

definition RetryTimeoutError :: "string \<Rightarrow> js_error option \<Rightarrow> js_error" where
  "RetryTimeoutError msg c = Error ''RetryTimeoutError'' msg c"

definition RetryAttemptsExceededError :: "string \<Rightarrow> js_error option \<Rightarrow> js_error" where
  "RetryAttemptsExceededError msg c = Error ''RetryAttemptsExceededError'' msg c"

definition RetryConfigurationError :: "string \<Rightarrow> js_error option \<Rightarrow> js_error" where
  "RetryConfigurationError msg c = Error ''RetryConfigurationError'' msg c"

definition RetryReportValidationError :: "string \<Rightarrow> js_error option \<Rightarrow> js_error" where
  "RetryReportValidationError msg c = Error ''RetryReportValidationError'' msg c"

section \<open>RetryReport and RetryReportBuilder\<close>

datatype reason_type = ErrorReason | ResultReason

record RetryReport =
  startTime :: int
  totalTime :: int
  attempts :: int
  errors :: "js_error list"
  delays :: "int list"
  retryingOperationSucceeded :: bool
  timedOut :: "bool option"
  retryReasons :: "(reason_type \<times> jsval) list option"

text \<open>
  The builder holds one private report and every method returns a fresh builder, so a
  builder is modelled by the report it holds.
\<close>

type_synonym RetryReportBuilder = RetryReport

definition new_RetryReportBuilder :: "int \<Rightarrow> RetryReportBuilder" where
  "new_RetryReportBuilder t =
     \<lparr> startTime = t, totalTime = 0, attempts = 0, errors = [], delays = [],
       retryingOperationSucceeded = False, timedOut = None, retryReasons = None \<rparr>"

definition withAttempt :: "RetryReportBuilder \<Rightarrow> RetryReportBuilder" where
  "withAttempt b = b\<lparr> attempts := attempts b + 1 \<rparr>"

text \<open>
  \<open>withError\<close> evaluates \<open>error instanceof Error ? error : new Error(String(error))\<close>
  first; when \<open>String\<close> throws, so does \<open>withError\<close>, and no builder is made.
\<close>

definition withError ::
  "js_platform \<Rightarrow> jsval \<Rightarrow> RetryReportBuilder \<Rightarrow> jsval + RetryReportBuilder"
where
  "withError js err b =
     (case (case err of
              JError e \<Rightarrow> Inr e
            | _ \<Rightarrow> (case js_String js err of
                      Inl thrown \<Rightarrow> Inl thrown
                    | Inr s \<Rightarrow> Inr (new_Error s))) of
        Inl thrown \<Rightarrow> Inl thrown
      | Inr errorObj \<Rightarrow> Inr (b\<lparr> errors := errors b @ [errorObj] \<rparr>))"

definition withDelay :: "int \<Rightarrow> RetryReportBuilder \<Rightarrow> RetryReportBuilder" where
  "withDelay d b = b\<lparr> delays := delays b @ [d] \<rparr>"

definition sanitizeForLogging :: "js_platform \<Rightarrow> jsval \<Rightarrow> bool \<Rightarrow> int \<Rightarrow> jsval" where
  "sanitizeForLogging js v shouldSanitize threshold =
     (if \<not> shouldSanitize \<or> loosely_null v \<or> \<not> typeof_object v then v
      else
        (case JSON_stringify js v of
           JsonThrows x \<Rightarrow> JStr ''[Unstringifiable Object]''
         | JsonUndefined \<Rightarrow> JStr ''[Unstringifiable Object]''
         | Json json \<Rightarrow>
             if int (length json) \<le> threshold then v
             else
               (let objType =
                      (case constructor_name js v of
                         None \<Rightarrow> ''Object''
                       | Some n \<Rightarrow> if n = [] then ''Object'' else n)
                in JStr (''[Large '' @ objType @ '': '' @ js_num (int (length json))
                           @ '' chars]''))))"

definition withRetryReason ::
  "js_platform \<Rightarrow> reason_type \<Rightarrow> jsval \<Rightarrow> bool \<Rightarrow> int \<Rightarrow> RetryReportBuilder \<Rightarrow> RetryReportBuilder"
where
  "withRetryReason js ty v sanitize threshold b =
     (let reasons = (case retryReasons b of None \<Rightarrow> [] | Some rs \<Rightarrow> rs);
          sanitizedValue = sanitizeForLogging js v sanitize threshold
      in b\<lparr> retryReasons := Some (reasons @ [(ty, sanitizedValue)]) \<rparr>)"

definition withSuccess :: "int \<Rightarrow> RetryReportBuilder \<Rightarrow> RetryReportBuilder" where
  "withSuccess currentTime b =
     b\<lparr> retryingOperationSucceeded := True, totalTime := currentTime - startTime b \<rparr>"

definition withTimeout :: "int \<Rightarrow> RetryReportBuilder \<Rightarrow> RetryReportBuilder" where
  "withTimeout currentTime b =
     b\<lparr> timedOut := Some True, totalTime := currentTime - startTime b \<rparr>"

definition withFailure :: "int \<Rightarrow> RetryReportBuilder \<Rightarrow> RetryReportBuilder" where
  "withFailure currentTime b =
     b\<lparr> retryingOperationSucceeded := False, totalTime := currentTime - startTime b \<rparr>"

definition build :: "RetryReportBuilder \<Rightarrow> js_error + RetryReport" where
  "build b =
     (if totalTime b < 0 then
        Inl (RetryReportValidationError ''Invalid report: totalTime cannot be negative'' None)
      else if attempts b < 0 then
        Inl (RetryReportValidationError ''Invalid report: attempts cannot be negative'' None)
      else Inr b)"

section \<open>Logger.service.ts\<close>

datatype LogLevel = LTrace | LDebug | LInfo | LWarn | LError

text \<open>The six methods of the \<open>LogHandler\<close> interface (\<open>keyof LogHandler\<close>).\<close>

datatype LogMethod = MTrace | MDebug | MLog | MInfo | MWarn | MError

text \<open>
  A log handler maps a method name to the method. A method takes the message and the
  world, and returns the value it threw, if it threw, together with the world it left.
\<close>

type_synonym 'w LogHandler = "LogMethod \<Rightarrow> string \<Rightarrow> 'w \<Rightarrow> jsval option \<times> 'w"

fun LOG_LEVEL_PRIORITY :: "LogLevel \<Rightarrow> nat" where
  "LOG_LEVEL_PRIORITY LTrace = 1"
| "LOG_LEVEL_PRIORITY LDebug = 2"
| "LOG_LEVEL_PRIORITY LInfo = 3"
| "LOG_LEVEL_PRIORITY LWarn = 4"
| "LOG_LEVEL_PRIORITY LError = 5"

definition DEFAULT_LOG_LEVEL :: LogLevel where
  "DEFAULT_LOG_LEVEL = LInfo"

text \<open>The level named by a string, when the string is a key of the priority table.\<close>

definition level_of_string :: "string \<Rightarrow> LogLevel option" where
  "level_of_string s =
     (if s = ''trace'' then Some LTrace
      else if s = ''debug'' then Some LDebug
      else if s = ''info'' then Some LInfo
      else if s = ''warn'' then Some LWarn
      else if s = ''error'' then Some LError
      else None)"

definition isValidLogLevel :: "string option \<Rightarrow> bool" where
  "isValidLogLevel v = (case v of None \<Rightarrow> False | Some s \<Rightarrow> level_of_string s \<noteq> None)"

record 'w Logger =
  currentLevel :: LogLevel
  logHandler :: "'w LogHandler"

text \<open>
  The constructor. An absent level takes the default; an invalid one is reported through
  the handler's \<open>warn\<close>, outside any \<open>try\<close>, and replaced by the default.
\<close>

definition new_Logger :: "string option \<Rightarrow> 'w LogHandler \<Rightarrow> 'w \<Rightarrow> (jsval + 'w Logger) \<times> 'w" where
  "new_Logger level h w =
     (case level of
        None \<Rightarrow> (Inr \<lparr> currentLevel = DEFAULT_LOG_LEVEL, logHandler = h \<rparr>, w)
      | Some s \<Rightarrow>
          (case level_of_string s of
             Some l \<Rightarrow> (Inr \<lparr> currentLevel = l, logHandler = h \<rparr>, w)
           | None \<Rightarrow>
               (case h MWarn (''Invalid log level '' @ [CHR 0x22] @ s @ [CHR 0x22]
                              @ '', defaulting to '' @ [CHR 0x22] @ ''info'' @ [CHR 0x22]
                              @ ''.'') w of
                  (Some x, w') \<Rightarrow> (Inl x, w')
                | (None, w') \<Rightarrow>
                    (Inr \<lparr> currentLevel = DEFAULT_LOG_LEVEL, logHandler = h \<rparr>, w'))))"

definition isLoggable :: "'w Logger \<Rightarrow> LogLevel \<Rightarrow> bool" where
  "isLoggable lg targetLevel =
     (LOG_LEVEL_PRIORITY targetLevel \<ge> LOG_LEVEL_PRIORITY (currentLevel lg))"

text \<open>\<open>tryLog\<close> calls the handler's method inside \<open>try\<close> with an empty \<open>catch\<close>.\<close>

definition tryLog :: "'w Logger \<Rightarrow> LogMethod \<Rightarrow> string \<Rightarrow> 'w \<Rightarrow> 'w" where
  "tryLog lg method msg w = (case logHandler lg method msg w of (thrown, w') \<Rightarrow> w')"

text \<open>The logger as a \<open>LogHandler\<close>: its six public methods.\<close>

fun Logger_method :: "'w Logger \<Rightarrow> 'w LogHandler" where
  "Logger_method lg MTrace msg w =
     (if isLoggable lg LTrace then (None, tryLog lg MTrace msg w) else (None, w))"
| "Logger_method lg MDebug msg w =
     (if isLoggable lg LDebug then (None, tryLog lg MDebug msg w) else (None, w))"
| "Logger_method lg MLog msg w =
     (if isLoggable lg LInfo then (None, tryLog lg MLog msg w) else (None, w))"
| "Logger_method lg MInfo msg w =
     (if isLoggable lg LInfo then (None, tryLog lg MInfo msg w) else (None, w))"
| "Logger_method lg MWarn msg w =
     (if isLoggable lg LWarn then (None, tryLog lg MWarn msg w) else (None, w))"
| "Logger_method lg MError msg w =
     (if isLoggable lg LError then (None, tryLog lg MError msg w) else (None, w))"

section \<open>Retry.service.ts: options, collaborators, and the record of their calls\<close>

record 'w Timer =
  timer_delay :: "int \<Rightarrow> 'w \<Rightarrow> 'w"
  timer_now :: "'w \<Rightarrow> int \<times> 'w"

record 'w RetryService =
  logger :: "'w LogHandler"
  timer :: "'w Timer"

record 'w RetryOptions =
  retries :: int
  delay :: "int option"
  exponentialBackoff :: "bool option"
  retryOnError :: "(jsval \<Rightarrow> bool) option"
  retryOnResult :: "(jsval \<Rightarrow> bool) option"
  timeout :: "int option"
  onComplete :: "(RetryReport \<Rightarrow> 'w \<Rightarrow> 'w) option"
  sanitizeRetryReasons :: "bool option"
  sanitizationThreshold :: "int option"

text \<open>
  The operation under retry: from the world, the value it resolved to (\<open>Inr\<close>) or the
  value it threw (\<open>Inl\<close>), and the world it left.
\<close>

type_synonym 'w operation = "'w \<Rightarrow> (jsval + jsval) \<times> 'w"

text \<open>
  The engine's state is the world together with the list of calls the engine has made to
  its collaborators, oldest first, as a mock would record them.
\<close>

datatype event =
    NowCalled int
  | DelayCalled int
  | DebugCalled string
  | FnCalled "jsval + jsval"
  | OnCompleteCalled RetryReport

type_synonym 'w state = "'w \<times> event list"

definition call_now :: "'w RetryService \<Rightarrow> 'w state \<Rightarrow> int \<times> 'w state" where
  "call_now svc st =
     (case timer_now (timer svc) (fst st) of (t, w') \<Rightarrow> (t, (w', snd st @ [NowCalled t])))"

definition call_delay :: "'w RetryService \<Rightarrow> int \<Rightarrow> 'w state \<Rightarrow> 'w state" where
  "call_delay svc ms st = (timer_delay (timer svc) ms (fst st), snd st @ [DelayCalled ms])"

definition call_debug :: "'w RetryService \<Rightarrow> string \<Rightarrow> 'w state \<Rightarrow> jsval option \<times> 'w state" where
  "call_debug svc msg st =
     (case logger svc MDebug msg (fst st) of
        (thrown, w') \<Rightarrow> (thrown, (w', snd st @ [DebugCalled msg])))"

definition call_fn :: "'w operation \<Rightarrow> 'w state \<Rightarrow> (jsval + jsval) \<times> 'w state" where
  "call_fn fn st = (case fn (fst st) of (r, w') \<Rightarrow> (r, (w', snd st @ [FnCalled r])))"

text \<open>\<open>if (options.onComplete) options.onComplete(finalReport)\<close>\<close>

definition call_onComplete :: "'w RetryOptions \<Rightarrow> RetryReport \<Rightarrow> 'w state \<Rightarrow> 'w state" where
  "call_onComplete opts finalReport st =
     (case onComplete opts of
        None \<Rightarrow> st
      | Some hook \<Rightarrow> (hook finalReport (fst st), snd st @ [OnCompleteCalled finalReport]))"

section \<open>Retry.service.ts: RetryService\<close>

definition validateOptions :: "'w RetryOptions \<Rightarrow> js_error + unit" where
  "validateOptions opts =
     (if retries opts < 0 then Inl (RetryConfigurationError ''Negative retries'' None)
      else if (case delay opts of None \<Rightarrow> False | Some d \<Rightarrow> d < 0) then
        Inl (RetryConfigurationError ''Delay cannot be negative'' None)
      else if (case timeout opts of None \<Rightarrow> False | Some t \<Rightarrow> t \<le> 0) then
        Inl (RetryConfigurationError ''Timeout must be greater than zero'' None)
      else if (case sanitizationThreshold opts of None \<Rightarrow> False | Some s \<Rightarrow> s < 0) then
        Inl (RetryConfigurationError ''Sanitization threshold cannot be negative'' None)
      else Inr ())"

text \<open>
  \<open>Boolean(timeout && this.timer.now() > timeout)\<close>: the clock is read only when the
  deadline is a number other than 0.
\<close>

definition isTimedOut :: "'w RetryService \<Rightarrow> int option \<Rightarrow> 'w state \<Rightarrow> bool \<times> 'w state" where
  "isTimedOut svc deadline st =
     (case deadline of
        None \<Rightarrow> (False, st)
      | Some d \<Rightarrow>
          if d = 0 then (False, st)
          else (case call_now svc st of (t, st') \<Rightarrow> (t > d, st')))"

definition handleTimeout ::
  "'w RetryService \<Rightarrow> RetryReportBuilder \<Rightarrow> 'w RetryOptions \<Rightarrow> 'w state
     \<Rightarrow> (jsval + jsval) \<times> 'w state"
where
  "handleTimeout svc reportBuilder opts st =
     (case call_debug svc ''Retry timeout exceeded'' st of
        (Some x, st1) \<Rightarrow> (Inl x, st1)
      | (None, st1) \<Rightarrow>
          (case call_now svc st1 of
             (t, st2) \<Rightarrow>
               (case build (withTimeout t reportBuilder) of
                  Inl e \<Rightarrow> (Inl (JError e), st2)
                | Inr finalReport \<Rightarrow>
                    (let maybeLastError =
                           (if length (errors finalReport) > 0
                            then Some (last (errors finalReport)) else None);
                         st3 = call_onComplete opts finalReport st2
                     in (Inl (JError (RetryTimeoutError ''Retry timeout exceeded''
                                        maybeLastError)), st3)))))"

definition handleSuccess ::
  "'w RetryService \<Rightarrow> jsval \<Rightarrow> RetryReportBuilder \<Rightarrow> 'w RetryOptions \<Rightarrow> 'w state
     \<Rightarrow> (jsval + jsval) \<times> 'w state"
where
  "handleSuccess svc result reportBuilder opts st =
     (case call_now svc st of
        (t, st1) \<Rightarrow>
          (case build (withSuccess t reportBuilder) of
             Inl e \<Rightarrow> (Inl (JError e), st1)
           | Inr finalReport \<Rightarrow> (Inr result, call_onComplete opts finalReport st1)))"

definition handleNonRetryableError ::
  "'w RetryService \<Rightarrow> jsval \<Rightarrow> RetryReportBuilder \<Rightarrow> 'w RetryOptions \<Rightarrow> int \<Rightarrow> bool
     \<Rightarrow> 'w state \<Rightarrow> (jsval + jsval) \<times> 'w state"
where
  "handleNonRetryableError svc err reportBuilder opts retriesLeft shouldRetry st =
     (case call_debug svc ''No retries left or error is not retryable. Throwing error'' st of
        (Some x, st1) \<Rightarrow> (Inl x, st1)
      | (None, st1) \<Rightarrow>
          (case call_now svc st1 of
             (t, st2) \<Rightarrow>
               (case build (withFailure t reportBuilder) of
                  Inl e \<Rightarrow> (Inl (JError e), st2)
                | Inr finalReport \<Rightarrow>
                    (let st3 = call_onComplete opts finalReport st2
                     in if retriesLeft \<le> 0 \<and> shouldRetry then
                          (case err of
                             JError e \<Rightarrow>
                               (Inl (JError (RetryAttemptsExceededError
                                  (''Maximum retry attempts ('' @ js_num (retries opts)
                                     @ '') exceeded: '' @ message e) (Some e))), st3)
                           | _ \<Rightarrow> (Inl err, st3))
                        else (Inl err, st3)))))"

definition calculateDelay :: "'w RetryOptions \<Rightarrow> int \<Rightarrow> int \<Rightarrow> int" where
  "calculateDelay opts retriesLeft baseDelay =
     (if exponentialBackoff opts = Some True
      then baseDelay * (retries opts - retriesLeft + 1)
      else baseDelay)"

text \<open>The template literals passed to \<open>logger.debug\<close>.\<close>

definition attempting_message :: "int \<Rightarrow> string" where
  "attempting_message retriesLeft = ''Attempting function, retries left: '' @ js_num retriesLeft"

definition error_encountered_message :: "jsval \<Rightarrow> int \<Rightarrow> string" where
  "error_encountered_message err retriesLeft =
     ''Error encountered: ''
       @ (case err of JError e \<Rightarrow> message e | _ \<Rightarrow> ''Unknown error'')
       @ ''. Retries left: '' @ js_num retriesLeft"

definition retrying_message :: "int \<Rightarrow> int \<Rightarrow> string" where
  "retrying_message currentDelay retriesLeft =
     ''Retrying in '' @ js_num currentDelay @ ''ms... Retries left: ''
       @ js_num (retriesLeft - 1)"

definition no_retries_left_message :: "string \<Rightarrow> string" where
  "no_retries_left_message json =
     ''No retries left for retryable result. Returning result: '' @ json"

text \<open>
  The debug call made when a retryable result arrives with no retries left. Its message
  embeds \<open>JSON.stringify(result)\<close>, which is evaluated before the call and may throw.
\<close>

definition debug_no_retries_left ::
  "'w RetryService \<Rightarrow> js_platform \<Rightarrow> jsval \<Rightarrow> 'w state \<Rightarrow> jsval option \<times> 'w state"
where
  "debug_no_retries_left svc js result st =
     (case JSON_stringify js result of
        JsonThrows x \<Rightarrow> (Some x, st)
      | JsonUndefined \<Rightarrow> call_debug svc (no_retries_left_message ''undefined'') st
      | Json s \<Rightarrow> call_debug svc (no_retries_left_message s) st)"

text \<open>
  The four mutually recursive methods. In \<open>attempt\<close> everything from the first debug call
  to \<open>handleSuccess\<close> stands inside \<open>try\<close>, and \<open>handleRetryableResult\<close> is awaited
  there: whatever these throw or reject with goes to \<open>handleError\<close> together with the
  \<open>retriesLeft\<close> and the builder of this \<open>attempt\<close>. \<open>handleError\<close> is called from the
  \<open>catch\<close> block, so what it throws (from \<open>debug\<close> or from \<open>withError\<close>) or rejects
  with leaves this \<open>attempt\<close>.
\<close>

function
  attempt ::
    "'w RetryService \<Rightarrow> js_platform \<Rightarrow> 'w operation \<Rightarrow> 'w RetryOptions \<Rightarrow> int \<Rightarrow> int
       \<Rightarrow> int option \<Rightarrow> int \<Rightarrow> RetryReportBuilder \<Rightarrow> 'w state \<Rightarrow> (jsval + jsval) \<times> 'w state"
and handleRetryableResult ::
    "'w RetryService \<Rightarrow> js_platform \<Rightarrow> 'w operation \<Rightarrow> jsval \<Rightarrow> 'w RetryOptions \<Rightarrow> int \<Rightarrow> int
       \<Rightarrow> int option \<Rightarrow> int \<Rightarrow> RetryReportBuilder \<Rightarrow> 'w state \<Rightarrow> (jsval + jsval) \<times> 'w state"
and handleError ::
    "'w RetryService \<Rightarrow> js_platform \<Rightarrow> jsval \<Rightarrow> 'w operation \<Rightarrow> 'w RetryOptions \<Rightarrow> int \<Rightarrow> int
       \<Rightarrow> int option \<Rightarrow> int \<Rightarrow> RetryReportBuilder \<Rightarrow> 'w state \<Rightarrow> (jsval + jsval) \<times> 'w state"
and retryAfterError ::
    "'w RetryService \<Rightarrow> js_platform \<Rightarrow> 'w operation \<Rightarrow> jsval \<Rightarrow> 'w RetryOptions \<Rightarrow> int \<Rightarrow> int
       \<Rightarrow> int option \<Rightarrow> int \<Rightarrow> RetryReportBuilder \<Rightarrow> 'w state \<Rightarrow> (jsval + jsval) \<times> 'w state"
where
  "attempt svc js fn opts retriesLeft baseDelay deadline threshold currentReportBuilder st =
     (let updatedReportBuilder = withAttempt currentReportBuilder
      in case isTimedOut svc deadline st of
           (True, st1) \<Rightarrow> handleTimeout svc updatedReportBuilder opts st1
         | (False, st1) \<Rightarrow>
            (case call_debug svc (attempting_message retriesLeft) st1 of
               (Some x, st2) \<Rightarrow>
                 handleError svc js x fn opts retriesLeft baseDelay deadline threshold
                   updatedReportBuilder st2
             | (None, st2) \<Rightarrow>
                (case call_fn fn st2 of
                   (Inl x, st3) \<Rightarrow>
                     handleError svc js x fn opts retriesLeft baseDelay deadline threshold
                       updatedReportBuilder st3
                 | (Inr result, st3) \<Rightarrow>
                     (let retryable =
                            (case retryOnResult opts of None \<Rightarrow> False | Some p \<Rightarrow> p result)
                      in if retryable \<and> retriesLeft > 0 then
                           (case handleRetryableResult svc js fn result opts retriesLeft
                                   baseDelay deadline threshold updatedReportBuilder st3 of
                              (Inl x, st4) \<Rightarrow>
                                handleError svc js x fn opts retriesLeft baseDelay deadline
                                  threshold updatedReportBuilder st4
                            | (Inr v, st4) \<Rightarrow> (Inr v, st4))
                         else
                           (case (if retryable then debug_no_retries_left svc js result st3
                                  else (None, st3)) of
                              (Some x, st4) \<Rightarrow>
                                handleError svc js x fn opts retriesLeft baseDelay deadline
                                  threshold updatedReportBuilder st4
                            | (None, st4) \<Rightarrow>
                               (case handleSuccess svc result updatedReportBuilder opts st4 of
                                  (Inl x, st5) \<Rightarrow>
                                    handleError svc js x fn opts retriesLeft baseDelay deadline
                                      threshold updatedReportBuilder st5
                                | (Inr v, st5) \<Rightarrow> (Inr v, st5)))))))"
| "handleRetryableResult svc js fn result opts retriesLeft baseDelay deadline threshold
     reportBuilder st =
     (let currentDelay = calculateDelay opts retriesLeft baseDelay
      in case call_debug svc (retrying_message currentDelay retriesLeft) st of
           (Some x, st1) \<Rightarrow> (Inl x, st1)
         | (None, st1) \<Rightarrow>
            (let retryReportBuilder =
                   withDelay currentDelay
                     (withRetryReason js ResultReason result
                        (sanitizeRetryReasons opts \<noteq> Some False) threshold reportBuilder);
                 st2 = (if currentDelay \<noteq> 0 then call_delay svc currentDelay st1 else st1)
             in attempt svc js fn opts (retriesLeft - 1) baseDelay deadline threshold
                  retryReportBuilder st2))"
| "handleError svc js err fn opts retriesLeft baseDelay deadline threshold reportBuilder st =
     (case call_debug svc (error_encountered_message err retriesLeft) st of
        (Some x, st1) \<Rightarrow> (Inl x, st1)
      | (None, st1) \<Rightarrow>
         (case withError js err reportBuilder of
            Inl thrown \<Rightarrow> (Inl thrown, st1)
          | Inr errorReportBuilder \<Rightarrow>
             (let shouldRetry = (case retryOnError opts of None \<Rightarrow> True | Some p \<Rightarrow> p err)
              in if \<not> shouldRetry \<or> retriesLeft \<le> 0 then
                   handleNonRetryableError svc err errorReportBuilder opts retriesLeft
                     shouldRetry st1
                 else
                   retryAfterError svc js fn err opts retriesLeft baseDelay deadline threshold
                     errorReportBuilder st1)))"
| "retryAfterError svc js fn err opts retriesLeft baseDelay deadline threshold reportBuilder st =
     (let currentDelay = calculateDelay opts retriesLeft baseDelay
      in case call_debug svc (retrying_message currentDelay retriesLeft) st of
           (Some x, st1) \<Rightarrow> (Inl x, st1)
         | (None, st1) \<Rightarrow>
            (let retryReportBuilder =
                   withDelay currentDelay
                     (withRetryReason js ErrorReason err
                        (sanitizeRetryReasons opts \<noteq> Some False) threshold reportBuilder);
                 st2 = (if currentDelay \<noteq> 0 then call_delay svc currentDelay st1 else st1)
             in attempt svc js fn opts (retriesLeft - 1) baseDelay deadline threshold
                  retryReportBuilder st2))"
  by pat_completeness auto
termination
  by (relation "measure (\<lambda>x. case x of
          Inl (Inl (svc, js, fn, opts, rl, rest)) \<Rightarrow> 4 * nat rl + 2
        | Inl (Inr (svc, js, fn, res, opts, rl, rest)) \<Rightarrow>
            (if rl > 0 then 4 * nat rl + 1 else 3)
        | Inr (Inl (svc, js, err, fn, opts, rl, rest)) \<Rightarrow>
            (if rl > 0 then 4 * nat rl + 1 else 1)
        | Inr (Inr (svc, js, fn, err, opts, rl, rest)) \<Rightarrow>
            (if rl > 0 then 4 * nat rl else 3))") auto

declare attempt.simps [simp del] handleRetryableResult.simps [simp del]
  handleError.simps [simp del] retryAfterError.simps [simp del]

definition retry ::
  "'w RetryService \<Rightarrow> js_platform \<Rightarrow> 'w operation \<Rightarrow> 'w RetryOptions \<Rightarrow> 'w state
     \<Rightarrow> (jsval + jsval) \<times> 'w state"
where
  "retry svc js fn opts st =
     (case validateOptions opts of
        Inl e \<Rightarrow> (Inl (JError e), st)
      | Inr u \<Rightarrow>
         (let retriesLeft = max 0 (retries opts);
              baseDelay = max 0 (case delay opts of None \<Rightarrow> 0 | Some d \<Rightarrow> d)
          in case (case timeout opts of
                     None \<Rightarrow> (None, st)
                   | Some t \<Rightarrow>
                       if t = 0 then (None, st)
                       else (case call_now svc st of (n, st') \<Rightarrow> (Some (n + t), st'))) of
               (deadline, st1) \<Rightarrow>
                 (let threshold =
                        (case sanitizationThreshold opts of None \<Rightarrow> 500 | Some s \<Rightarrow> s)
                  in case call_now svc st1 of
                       (t0, st2) \<Rightarrow>
                         attempt svc js fn opts retriesLeft baseDelay deadline threshold
                           (new_RetryReportBuilder t0) st2)))"

section \<open>Reading the record of calls\<close>

text \<open>The outcomes of the invocations of the operation, oldest first.\<close>

fun fn_calls :: "event list \<Rightarrow> (jsval + jsval) list" where
  "fn_calls [] = []"
| "fn_calls (FnCalled r # es) = r # fn_calls es"
| "fn_calls (e # es) = fn_calls es"

text \<open>The reports handed to \<open>onComplete\<close>, oldest first.\<close>

fun onComplete_calls :: "event list \<Rightarrow> RetryReport list" where
  "onComplete_calls [] = []"
| "onComplete_calls (OnCompleteCalled r # es) = r # onComplete_calls es"
| "onComplete_calls (e # es) = onComplete_calls es"

text \<open>The readings of the clock, oldest first.\<close>

fun now_calls :: "event list \<Rightarrow> int list" where
  "now_calls [] = []"
| "now_calls (NowCalled t # es) = t # now_calls es"
| "now_calls (e # es) = now_calls es"

text \<open>The entries of \<open>retryReasons\<close>, an absent field holding none.\<close>

definition reasons_of :: "RetryReport \<Rightarrow> (reason_type \<times> jsval) list" where
  "reasons_of r = (case retryReasons r of None \<Rightarrow> [] | Some rs \<Rightarrow> rs)"

section \<open>Sample collaborators and policies\<close>

text \<open>
  A platform for the examples. Its objects have no enumerable property of their own that
  \<open>JSON.stringify\<close> would print. Object 0 is circular, so \<open>JSON.stringify\<close> throws on
  it; object 2 was made by \<open>Object.create(null)\<close>, so it has no constructor and no
  \<open>toString\<close>, and \<open>String\<close> throws on it; object 3 was made by \<open>new CustomClass()\<close>.
  The strings of the examples hold no character that \<open>JSON.stringify\<close> escapes.
\<close>

definition sample_js :: js_platform where
  "sample_js =
     \<lparr> JSON_stringify =
         (\<lambda>v. case v of
                JUndefined \<Rightarrow> JsonUndefined
              | JNull \<Rightarrow> Json ''null''
              | JBool b \<Rightarrow> Json (if b then ''true'' else ''false'')
              | JNum i \<Rightarrow> Json (js_num i)
              | JStr s \<Rightarrow> Json ([CHR 0x22] @ s @ [CHR 0x22])
              | JObject i \<Rightarrow>
                  if i = 0
                  then JsonThrows (JError (Error ''TypeError''
                         ''Converting circular structure to JSON'' None))
                  else Json ''{}''
              | JError e \<Rightarrow> Json ''{}''),
       constructor_name =
         (\<lambda>v. case v of
                JObject i \<Rightarrow>
                  if i = 2 then None else if i = 3 then Some ''CustomClass''
                  else Some ''Object''
              | JError e \<Rightarrow> Some (name e)
              | _ \<Rightarrow> None),
       js_String =
         (\<lambda>v. case v of
                JUndefined \<Rightarrow> Inr ''undefined''
              | JNull \<Rightarrow> Inr ''null''
              | JBool b \<Rightarrow> Inr (if b then ''true'' else ''false'')
              | JNum i \<Rightarrow> Inr (js_num i)
              | JStr s \<Rightarrow> Inr s
              | JObject i \<Rightarrow>
                  if i = 2
                  then Inl (JError (Error ''TypeError''
                         ''Cannot convert object to primitive value'' None))
                  else Inr ''[object Object]''
              | JError e \<Rightarrow>
                  Inr (if name e = [] then message e
                       else if message e = [] then name e
                       else name e @ '': '' @ message e)) \<rparr>"

text \<open>A log handler that does nothing, and one whose every method throws.\<close>

definition quiet_handler :: "'w LogHandler" where
  "quiet_handler = (\<lambda>m msg w. (None, w))"

definition throwing_handler :: "'w LogHandler" where
  "throwing_handler = (\<lambda>m msg w. (Some (JError (new_Error ''sink failed'')), w))"

text \<open>The world of the examples is a clock. The timer reads it; a delay advances it.\<close>

definition clock_timer :: "int Timer" where
  "clock_timer = \<lparr> timer_delay = (\<lambda>ms w. w + max 0 ms), timer_now = (\<lambda>w. (w, w)) \<rparr>"

definition sample_service :: "int RetryService" where
  "sample_service = \<lparr> logger = quiet_handler, timer = clock_timer \<rparr>"

text \<open>An operation that always throws \<open>Error("X")\<close>, and one that always throws the string \<open>"X"\<close>.\<close>

definition always_throws_X :: "int operation" where
  "always_throws_X w = (Inl (JError (new_Error ''X'')), w)"

definition always_throws_string :: "int operation" where
  "always_throws_string w = (Inl (JStr ''X''), w)"

definition always_ok :: "int operation" where
  "always_ok w = (Inr (JStr ''ok''), w)"

text \<open>An operation that always throws the object made by \<open>Object.create(null)\<close>.\<close>

definition always_throws_bare_object :: "int operation" where
  "always_throws_bare_object w = (Inl (JObject 2), w)"

text \<open>\<open>{ retries: n, delay: d }\<close>, and the same with a completion hook that does nothing.\<close>

definition basic_options :: "int \<Rightarrow> int \<Rightarrow> int RetryOptions" where
  "basic_options n d =
     \<lparr> retries = n, delay = Some d, exponentialBackoff = None, retryOnError = None,
       retryOnResult = None, timeout = None, onComplete = None,
       sanitizeRetryReasons = None, sanitizationThreshold = None \<rparr>"

definition hooked_options :: "int \<Rightarrow> int \<Rightarrow> int RetryOptions" where
  "hooked_options n d = (basic_options n d)\<lparr> onComplete := Some (\<lambda>r w. w) \<rparr>"

text \<open>
  \<open>{ retries: 2, delay: 10, exponentialBackoff: true, retryOnError: () => false }\<close>
  with a completion hook.
\<close>

definition never_retry_options :: "int RetryOptions" where
  "never_retry_options =
     (hooked_options 2 10)\<lparr> exponentialBackoff := Some True, retryOnError := Some (\<lambda>e. False) \<rparr>"

text \<open>
  An operation that returns \<open>"pending"\<close> on its first call and throws \<open>Error("X")\<close>
  afterwards (each call advances the clock by one), and the policy
  \<open>{ retries: 1, delay: 0, retryOnResult: v => v === "pending" }\<close> with a completion hook.
\<close>

definition pending_then_throws :: "int operation" where
  "pending_then_throws w =
     (if w = 0 then (Inr (JStr ''pending''), w + 1)
      else (Inl (JError (new_Error ''X'')), w + 1))"

definition pending_options :: "int RetryOptions" where
  "pending_options =
     (hooked_options 1 0)\<lparr> retryOnResult := Some (\<lambda>v. v = JStr ''pending'') \<rparr>"

text \<open>
  An operation that returns the circular object, and the policy
  \<open>{ retries: 0, delay: 0, retryOnResult: () => true }\<close> with a completion hook.
\<close>

definition returns_circular :: "int operation" where
  "returns_circular w = (Inr (JObject 0), w)"

definition always_retry_result_options :: "int RetryOptions" where
  "always_retry_result_options = (hooked_options 0 0)\<lparr> retryOnResult := Some (\<lambda>v. True) \<rparr>"

text \<open>
  A timer whose world counts its readings: it shows 1000, then 1050, then 1120 from the
  third reading on. With it, a service and the policy \<open>{ retries: 0, delay: 0, timeout: 100 }\<close>
  with a completion hook.
\<close>

definition drifting_timer :: "int Timer" where
  "drifting_timer =
     \<lparr> timer_delay = (\<lambda>ms w. w),
       timer_now = (\<lambda>w. (if w = 0 then 1000 else if w = 1 then 1050 else 1120, w + 1)) \<rparr>"

definition drifting_service :: "int RetryService" where
  "drifting_service = \<lparr> logger = quiet_handler, timer = drifting_timer \<rparr>"

definition timeout_options :: "int RetryOptions" where
  "timeout_options = (hooked_options 0 0)\<lparr> timeout := Some 100 \<rparr>"

section \<open>Assumptions on the collaborators, and names for what the engine computes\<close>

text \<open>The logger handed to the service never throws from \<open>debug\<close>.\<close>

definition debug_never_throws :: "'w RetryService \<Rightarrow> bool" where
  "debug_never_throws svc \<longleftrightarrow> (\<forall>msg w. fst (logger svc MDebug msg w) = None)"

text \<open>
  The timer is monotonic. \<open>past w\<close> is the latest time the clock has shown in world \<open>w\<close>:
  a reading is never below it, the world after a reading has it at least at that reading,
  and no collaborator moves it back.
\<close>

definition monotonic_clock ::
  "('w \<Rightarrow> int) \<Rightarrow> 'w RetryService \<Rightarrow> 'w operation \<Rightarrow> 'w RetryOptions \<Rightarrow> bool"
where
  "monotonic_clock past svc fn opts \<longleftrightarrow>
     (\<forall>w. past w \<le> fst (timer_now (timer svc) w)
          \<and> fst (timer_now (timer svc) w) \<le> past (snd (timer_now (timer svc) w)))
     \<and> (\<forall>ms w. past w \<le> past (timer_delay (timer svc) ms w))
     \<and> (\<forall>msg w. past w \<le> past (snd (logger svc MDebug msg w)))
     \<and> (\<forall>w. past w \<le> past (snd (fn w)))
     \<and> (\<forall>hook r w. onComplete opts = Some hook \<longrightarrow> past w \<le> past (hook r w))"

text \<open>A log handler with its failures removed: the same effects, and nothing thrown.\<close>

definition without_failures :: "'w LogHandler \<Rightarrow> 'w LogHandler" where
  "without_failures h = (\<lambda>method msg w. (None, snd (h method msg w)))"



text \<open>The value of \<open>shouldRetry\<close> in \<open>handleError\<close>.\<close>

definition shouldRetry_of :: "'w RetryOptions \<Rightarrow> jsval \<Rightarrow> bool" where
  "shouldRetry_of opts x = (case retryOnError opts of None \<Rightarrow> True | Some p \<Rightarrow> p x)"

text \<open>
  What \<open>handleNonRetryableError\<close> throws when \<open>retriesLeft \<le> 0\<close> and \<open>shouldRetry\<close>
  hold: the wrapper for an instance of \<open>Error\<close>, the value itself otherwise.
\<close>

definition raised_on_exhaustion :: "'w RetryOptions \<Rightarrow> jsval \<Rightarrow> jsval" where
  "raised_on_exhaustion opts x =
     (case x of
        JError e \<Rightarrow> JError (RetryAttemptsExceededError
                     (''Maximum retry attempts ('' @ js_num (retries opts)
                        @ '') exceeded: '' @ message e) (Some e))
      | _ \<Rightarrow> x)"

text \<open>
  The entry that \<open>withError\<close> appends to \<open>errors\<close>: the error itself, or the wrapper of a
  value that is not an instance of \<open>Error\<close>; none when \<open>String\<close> throws on the value.
\<close>

definition recorded_error :: "js_platform \<Rightarrow> jsval \<Rightarrow> js_error option" where
  "recorded_error js x =
     (case x of
        JError e \<Rightarrow> Some e
      | _ \<Rightarrow> (case js_String js x of Inl thrown \<Rightarrow> None | Inr s \<Rightarrow> Some (new_Error s)))"

text \<open>The reports \<open>onComplete\<close> receives at one terminal transition: one, or none without a hook.\<close>

definition hook_calls :: "'w RetryOptions \<Rightarrow> RetryReport \<Rightarrow> RetryReport list" where
  "hook_calls opts r = (case onComplete opts of None \<Rightarrow> [] | Some h \<Rightarrow> [r])"

section \<open>Steps of the engine with a quiet logger and a monotonic clock\<close>

lemma fn_calls_append [simp]: "fn_calls (xs @ ys) = fn_calls xs @ fn_calls ys"
  by (induction xs rule: fn_calls.induct) auto

lemma onComplete_calls_append [simp]:
  "onComplete_calls (xs @ ys) = onComplete_calls xs @ onComplete_calls ys"
  by (induction xs rule: onComplete_calls.induct) auto

lemma withError_recorded:
  "recorded_error js x = Some e \<Longrightarrow> withError js x b = Inr (b\<lparr> errors := errors b @ [e] \<rparr>)"
  by (cases x) (auto simp: withError_def recorded_error_def split: sum.splits)


lemma reasons_of_withRetryReason:
  "reasons_of (withRetryReason js ty v s thr b)
     = reasons_of b @ [(ty, sanitizeForLogging js v s thr)]"
  by (simp add: reasons_of_def withRetryReason_def Let_def)

lemma call_debug_quiet:
  assumes "debug_never_throws svc" and "monotonic_clock past svc fn opts"
  obtains st1 where "call_debug svc msg st = (None, st1)"
    and "snd st1 = snd st @ [DebugCalled msg]"
    and "past (fst st) \<le> past (fst st1)"
proof -
  obtain r w' where l: "logger svc MDebug msg (fst st) = (r, w')"
    by (cases "logger svc MDebug msg (fst st)")
  with assms(1) have "r = None"
    by (metis debug_never_throws_def fst_conv)
  moreover from assms(2) l have "past (fst st) \<le> past w'"
    by (metis monotonic_clock_def snd_conv)
  ultimately show ?thesis
    using l that [of "(w', snd st @ [DebugCalled msg])"] by (simp add: call_debug_def)
qed

lemma call_now_mono:
  assumes "monotonic_clock past svc fn opts"
  obtains t st1 where "call_now svc st = (t, st1)"
    and "snd st1 = snd st @ [NowCalled t]"
    and "past (fst st) \<le> t" and "t \<le> past (fst st1)"
proof -
  obtain t w' where l: "timer_now (timer svc) (fst st) = (t, w')"
    by (cases "timer_now (timer svc) (fst st)")
  from assms l have "past (fst st) \<le> t" "t \<le> past w'"
    by (metis monotonic_clock_def fst_conv snd_conv)+
  then show ?thesis
    using l that [of t "(w', snd st @ [NowCalled t])"] by (simp add: call_now_def)
qed

lemma call_onComplete_mono:
  assumes "monotonic_clock past svc fn opts"
  shows "past (fst st) \<le> past (fst (call_onComplete opts r st))"
    and "snd (call_onComplete opts r st)
          = snd st @ map OnCompleteCalled (hook_calls opts r)"
  using assms
  by (auto simp: call_onComplete_def monotonic_clock_def hook_calls_def split: option.splits)

lemma call_delay_mono:
  assumes "monotonic_clock past svc fn opts"
  shows "past (fst st) \<le> past (fst (call_delay svc ms st))"
    and "snd (call_delay svc ms st) = snd st @ [DelayCalled ms]"
  using assms by (auto simp: call_delay_def monotonic_clock_def)

lemma call_fn_mono:
  assumes "monotonic_clock past svc fn opts"
  obtains r st1 where "call_fn fn st = (r, st1)"
    and "fn (fst st) = (r, fst st1)"
    and "snd st1 = snd st @ [FnCalled r]"
    and "past (fst st) \<le> past (fst st1)"
proof -
  obtain r w' where l: "fn (fst st) = (r, w')"
    by (cases "fn (fst st)")
  from assms l have "past (fst st) \<le> past w'"
    by (metis monotonic_clock_def snd_conv)
  then show ?thesis
    using l that [of r "(w', snd st @ [FnCalled r])"] by (simp add: call_fn_def)
qed

lemma onComplete_calls_map [simp]: "onComplete_calls (map OnCompleteCalled rs) = rs"
  by (induction rs) simp_all

lemma fn_calls_map [simp]: "fn_calls (map OnCompleteCalled rs) = []"
  by (induction rs) simp_all

lemma handleNonRetryableError_ok:
  assumes q: "debug_never_throws svc" and m: "monotonic_clock past svc fn opts"
    and b: "startTime b \<le> past (fst st)" "0 \<le> attempts b"
  obtains t st' where
    "handleNonRetryableError svc x b opts rl sr st =
       (Inl (if rl \<le> 0 \<and> sr then raised_on_exhaustion opts x else x), st')"
    and "startTime b \<le> t"
    and "fn_calls (snd st') = fn_calls (snd st)"
    and "onComplete_calls (snd st') = onComplete_calls (snd st) @ hook_calls opts (withFailure t b)"
    and "past (fst st) \<le> past (fst st')"
proof -
  obtain st1 where d: "call_debug svc ''No retries left or error is not retryable. Throwing error'' st = (None, st1)"
    and d1: "snd st1 = snd st @ [DebugCalled ''No retries left or error is not retryable. Throwing error'']"
    and d2: "past (fst st) \<le> past (fst st1)"
    using call_debug_quiet [OF q m] by blast
  obtain t st2 where n: "call_now svc st1 = (t, st2)"
    and n1: "snd st2 = snd st1 @ [NowCalled t]"
    and n2: "past (fst st1) \<le> t" and n3: "t \<le> past (fst st2)"
    using call_now_mono [OF m] by blast
  have bt: "startTime b \<le> t" using b d2 n2 by linarith
  then have bld: "build (withFailure t b) = Inr (withFailure t b)"
    using b by (simp add: build_def withFailure_def)
  let ?st3 = "call_onComplete opts (withFailure t b) st2"
  have "handleNonRetryableError svc x b opts rl sr st =
       (Inl (if rl \<le> 0 \<and> sr then raised_on_exhaustion opts x else x), ?st3)"
    by (cases x) (simp_all add: handleNonRetryableError_def d n bld Let_def raised_on_exhaustion_def)
  moreover have "fn_calls (snd ?st3) = fn_calls (snd st)"
    by (simp add: call_onComplete_mono(2) [OF m] n1 d1)
  moreover have "onComplete_calls (snd ?st3)
      = onComplete_calls (snd st) @ hook_calls opts (withFailure t b)"
    by (simp add: call_onComplete_mono(2) [OF m] n1 d1)
  moreover have "past (fst st) \<le> past (fst ?st3)"
    using call_onComplete_mono(1) [OF m, of st2 "withFailure t b"] d2 n2 n3 by linarith
  ultimately show ?thesis using that bt by blast
qed

text \<open>One failing iteration, up to the decision taken in \<open>handleError\<close>.\<close>

lemma attempt_failing_step:
  assumes q: "debug_never_throws svc" and m: "monotonic_clock past svc fn opts"
    and f: "\<forall>w. \<exists>x. fst (fn w) = Inl x \<and> shouldRetry_of opts x \<and> recorded_error js x \<noteq> None"
    and nt: "fst (isTimedOut svc deadline st) = False"
  obtains x e st0 st3 where
    "isTimedOut svc deadline st = (False, st0)"
    "shouldRetry_of opts x" "\<exists>w. fst (fn w) = Inl x"
    "recorded_error js x = Some e"
    "attempt svc js fn opts rl d deadline thr b st =
       (if rl \<le> 0 then
          handleNonRetryableError svc x ((withAttempt b)\<lparr> errors := errors (withAttempt b) @ [e] \<rparr>) opts rl True st3
        else
          retryAfterError svc js fn x opts rl d deadline thr ((withAttempt b)\<lparr> errors := errors (withAttempt b) @ [e] \<rparr>) st3)"
    "fn_calls (snd st3) = fn_calls (snd st0) @ [Inl x]"
    "onComplete_calls (snd st3) = onComplete_calls (snd st0)"
    "past (fst st0) \<le> past (fst st3)"
proof -
  obtain st0 where t0: "isTimedOut svc deadline st = (False, st0)"
    using nt by (cases "isTimedOut svc deadline st") simp
  obtain st1 where d1: "call_debug svc (attempting_message rl) st0 = (None, st1)"
    and t1: "snd st1 = snd st0 @ [DebugCalled (attempting_message rl)]"
    and p1: "past (fst st0) \<le> past (fst st1)"
    using call_debug_quiet [OF q m] by blast
  obtain r st2 where c2: "call_fn fn st1 = (r, st2)" and r2: "fn (fst st1) = (r, fst st2)"
    and t2: "snd st2 = snd st1 @ [FnCalled r]" and p2: "past (fst st1) \<le> past (fst st2)"
    using call_fn_mono [OF m] by blast
  from f r2 obtain x where x: "r = Inl x" "shouldRetry_of opts x" "recorded_error js x \<noteq> None"
    by (metis fst_conv)
  then obtain e where e: "recorded_error js x = Some e"
    by blast
  have we: "withError js x (withAttempt b)
              = Inr ((withAttempt b)\<lparr> errors := errors (withAttempt b) @ [e] \<rparr>)"
    by (rule withError_recorded [OF e])
  obtain st3 where d3: "call_debug svc (error_encountered_message x rl) st2 = (None, st3)"
    and t3: "snd st3 = snd st2 @ [DebugCalled (error_encountered_message x rl)]"
    and p3: "past (fst st2) \<le> past (fst st3)"
    using call_debug_quiet [OF q m] by blast
  have sr: "(case retryOnError opts of None \<Rightarrow> True | Some p \<Rightarrow> p x) = True"
    using x(2) by (simp add: shouldRetry_of_def)
  have "attempt svc js fn opts rl d deadline thr b st =
       (if rl \<le> 0 then
          handleNonRetryableError svc x ((withAttempt b)\<lparr> errors := errors (withAttempt b) @ [e] \<rparr>) opts rl True st3
        else
          retryAfterError svc js fn x opts rl d deadline thr ((withAttempt b)\<lparr> errors := errors (withAttempt b) @ [e] \<rparr>) st3)"
    by (subst attempt.simps) (simp add: t0 d1 c2 x(1) handleError.simps d3 we sr Let_def)
  moreover have "fn_calls (snd st3) = fn_calls (snd st0) @ [Inl x]"
    by (simp add: t1 t2 t3 x(1))
  moreover have "onComplete_calls (snd st3) = onComplete_calls (snd st0)"
    by (simp add: t1 t2 t3)
  moreover have "past (fst st0) \<le> past (fst st3)"
    using p1 p2 p3 by linarith
  moreover have "\<exists>w. fst (fn w) = Inl x"
    using r2 x(1) by (metis fst_conv)
  ultimately show ?thesis using that t0 x(2) e by blast
qed

lemma retryAfterError_quiet:
  assumes q: "debug_never_throws svc" and m: "monotonic_clock past svc fn opts"
  obtains st5 where
    "retryAfterError svc js fn x opts rl d deadline thr b st =
       attempt svc js fn opts (rl - 1) d deadline thr
         (withDelay (calculateDelay opts rl d)
            (withRetryReason js ErrorReason x (sanitizeRetryReasons opts \<noteq> Some False) thr b))
         st5"
    "fn_calls (snd st5) = fn_calls (snd st)"
    "onComplete_calls (snd st5) = onComplete_calls (snd st)"
    "past (fst st) \<le> past (fst st5)"
proof -
  let ?cd = "calculateDelay opts rl d"
  obtain st4 where d4: "call_debug svc (retrying_message ?cd rl) st = (None, st4)"
    and t4: "snd st4 = snd st @ [DebugCalled (retrying_message ?cd rl)]"
    and p4: "past (fst st) \<le> past (fst st4)"
    using call_debug_quiet [OF q m] by blast
  let ?st5 = "if ?cd \<noteq> 0 then call_delay svc ?cd st4 else st4"
  have "retryAfterError svc js fn x opts rl d deadline thr b st =
       attempt svc js fn opts (rl - 1) d deadline thr
         (withDelay ?cd
            (withRetryReason js ErrorReason x (sanitizeRetryReasons opts \<noteq> Some False) thr b))
         ?st5"
    by (subst retryAfterError.simps) (simp add: d4 Let_def)
  moreover have "fn_calls (snd ?st5) = fn_calls (snd st)"
    "onComplete_calls (snd ?st5) = onComplete_calls (snd st)"
    using call_delay_mono(2) [OF m] by (simp_all add: t4)
  moreover have "past (fst st) \<le> past (fst ?st5)"
    using call_delay_mono(1) [OF m, of st4 ?cd] p4 by auto
  ultimately show ?thesis using that by blast
qed


lemma attempt_always_failing:
  assumes q: "debug_never_throws svc" and m: "monotonic_clock past svc fn opts"
    and f: "\<forall>w. \<exists>x. fst (fn w) = Inl x \<and> shouldRetry_of opts x \<and> recorded_error js x \<noteq> None"
  shows "0 \<le> rl \<Longrightarrow> startTime b \<le> past (fst st) \<Longrightarrow> 0 \<le> attempts b \<Longrightarrow>
    \<exists>x outs r st'.
       attempt svc js fn opts rl d None thr b st = (Inl (raised_on_exhaustion opts x), st')
     \<and> fn_calls (snd st') = fn_calls (snd st) @ outs
     \<and> length outs = nat rl + 1 \<and> last outs = Inl x
     \<and> onComplete_calls (snd st') = onComplete_calls (snd st) @ hook_calls opts r
     \<and> attempts r = attempts b + rl + 1
     \<and> length (errors r) = length (errors b) + nat rl + 1
     \<and> recorded_error js x = Some (last (errors r))
     \<and> delays r = delays b
           @ map (\<lambda>j. if exponentialBackoff opts = Some True then d * j else d)
               [retries opts - rl + 1 .. retries opts]
     \<and> \<not> retryingOperationSucceeded r \<and> timedOut r = timedOut b
     \<and> startTime r = startTime b \<and> 0 \<le> totalTime r
     \<and> length (reasons_of r) = length (reasons_of b) + nat rl
     \<and> (\<exists>w. fst (fn w) = Inl x)"
proof (induction "nat rl" arbitrary: rl b st)
  case 0
  then have rl0: "rl \<le> 0" "nat rl = 0" by simp_all
  have nt: "fst (isTimedOut svc None st) = False" by (simp add: isTimedOut_def)
  show ?case
  proof (rule attempt_failing_step [OF q m f nt, where rl = rl and d = d and thr = thr and b = b])
    fix x e st0 st3
    let ?eb = "(withAttempt b)\<lparr> errors := errors (withAttempt b) @ [e] \<rparr>"
    assume s1: "isTimedOut svc None st = (False, st0)"
      and s6: "\<exists>w. fst (fn w) = Inl x"
      and s7: "recorded_error js x = Some e"
      and s2: "attempt svc js fn opts rl d None thr b st =
       (if rl \<le> 0 then handleNonRetryableError svc x ?eb opts rl True st3
        else retryAfterError svc js fn x opts rl d None thr ?eb st3)"
      and s3: "fn_calls (snd st3) = fn_calls (snd st0) @ [Inl x]"
      and s4: "onComplete_calls (snd st3) = onComplete_calls (snd st0)"
      and s5: "past (fst st0) \<le> past (fst st3)"
    have st0: "st0 = st" using s1 by (simp add: isTimedOut_def)
    have b3: "startTime ?eb \<le> past (fst st3)" "0 \<le> attempts ?eb"
      using "0.prems" s5 st0 by (simp_all add: withAttempt_def)
    show ?thesis
    proof (rule handleNonRetryableError_ok [OF q m b3, of x rl True])
      fix t st'
      assume h: "handleNonRetryableError svc x ?eb opts rl True st3
          = (Inl (if rl \<le> 0 \<and> True then raised_on_exhaustion opts x else x), st')"
        and ht: "startTime ?eb \<le> t"
        and hf: "fn_calls (snd st') = fn_calls (snd st3)"
        and hc: "onComplete_calls (snd st') = onComplete_calls (snd st3)
             @ hook_calls opts (withFailure t ?eb)"
      have a: "attempt svc js fn opts rl d None thr b st
                 = (Inl (raised_on_exhaustion opts x), st')"
        using s2 h rl0 by simp
      have fin: "attempts (withFailure t ?eb) = attempts b + rl + 1"
        "length (errors (withFailure t ?eb)) = length (errors b) + nat rl + 1"
        "recorded_error js x = Some (last (errors (withFailure t ?eb)))"
        "delays (withFailure t ?eb) = delays b
             @ map (\<lambda>j. if exponentialBackoff opts = Some True then d * j else d)
                 [retries opts - rl + 1 .. retries opts]"
        "\<not> retryingOperationSucceeded (withFailure t ?eb)"
        "timedOut (withFailure t ?eb) = timedOut b"
        "startTime (withFailure t ?eb) = startTime b" "0 \<le> totalTime (withFailure t ?eb)"
        "length (reasons_of (withFailure t ?eb)) = length (reasons_of b) + nat rl"
        using ht rl0 "0.prems"(1) s7
        by (simp_all add: withFailure_def withAttempt_def reasons_of_def)
      have fc: "fn_calls (snd st') = fn_calls (snd st) @ [Inl x]"
        using hf s3 st0 by simp
      have cc: "onComplete_calls (snd st') = onComplete_calls (snd st)
             @ hook_calls opts (withFailure t ?eb)"
        using hc s4 st0 by simp
      have lo: "length [Inl x :: jsval + jsval] = nat rl + 1" "last [Inl x] = Inl x"
        using rl0 by simp_all
      show ?thesis
        apply (rule exI [of _ x], rule exI [of _ "[Inl x]"],
            rule exI [of _ "withFailure t ?eb"], rule exI [of _ st'])
        using a fc lo cc fin s6 by - (intro conjI; assumption)
    qed
  qed
next
  case (Suc n)
  then have rlpos: "0 < rl" and nrl: "n = nat (rl - 1)" by simp_all
  have nt: "fst (isTimedOut svc None st) = False" by (simp add: isTimedOut_def)
  show ?case
  proof (rule attempt_failing_step [OF q m f nt, where rl = rl and d = d and thr = thr and b = b])
    fix x e st0 st3
    let ?eb = "(withAttempt b)\<lparr> errors := errors (withAttempt b) @ [e] \<rparr>"
    let ?rb = "withDelay (calculateDelay opts rl d)
              (withRetryReason js ErrorReason x (sanitizeRetryReasons opts \<noteq> Some False) thr ?eb)"
    assume s1: "isTimedOut svc None st = (False, st0)"
      and s6: "\<exists>w. fst (fn w) = Inl x"
      and s7: "recorded_error js x = Some e"
      and s2: "attempt svc js fn opts rl d None thr b st =
       (if rl \<le> 0 then handleNonRetryableError svc x ?eb opts rl True st3
        else retryAfterError svc js fn x opts rl d None thr ?eb st3)"
      and s3: "fn_calls (snd st3) = fn_calls (snd st0) @ [Inl x]"
      and s4: "onComplete_calls (snd st3) = onComplete_calls (snd st0)"
      and s5: "past (fst st0) \<le> past (fst st3)"
    have st0: "st0 = st" using s1 by (simp add: isTimedOut_def)
    show ?thesis
    proof (rule retryAfterError_quiet [OF q m, of js x rl d None thr ?eb st3])
      fix st5
      assume r1: "retryAfterError svc js fn x opts rl d None thr ?eb st3 =
         attempt svc js fn opts (rl - 1) d None thr ?rb st5"
        and r2: "fn_calls (snd st5) = fn_calls (snd st3)"
        and r3: "onComplete_calls (snd st5) = onComplete_calls (snd st3)"
        and r4: "past (fst st3) \<le> past (fst st5)"
      have a: "attempt svc js fn opts rl d None thr b st
           = attempt svc js fn opts (rl - 1) d None thr ?rb st5"
        using s2 r1 rlpos by simp
      have pre: "0 \<le> rl - 1" "startTime ?rb \<le> past (fst st5)" "0 \<le> attempts ?rb"
        using Suc.prems rlpos s5 r4 st0
        by (simp_all add: withDelay_def withRetryReason_def withAttempt_def
            Let_def)
      from Suc.hyps(1) [OF nrl pre] obtain x' outs r' st' where
          ih: "attempt svc js fn opts (rl - 1) d None thr ?rb st5
                 = (Inl (raised_on_exhaustion opts x'), st')"
            "fn_calls (snd st') = fn_calls (snd st5) @ outs"
            "length outs = nat (rl - 1) + 1" "last outs = Inl x'"
            "onComplete_calls (snd st') = onComplete_calls (snd st5) @ hook_calls opts r'"
            "attempts r' = attempts ?rb + (rl - 1) + 1"
            "length (errors r') = length (errors ?rb) + nat (rl - 1) + 1"
            "recorded_error js x' = Some (last (errors r'))"
            "delays r' = delays ?rb
               @ map (\<lambda>j. if exponentialBackoff opts = Some True then d * j else d)
                   [retries opts - (rl - 1) + 1 .. retries opts]"
            "\<not> retryingOperationSucceeded r'" "timedOut r' = timedOut ?rb"
            "startTime r' = startTime ?rb" "0 \<le> totalTime r'"
            "length (reasons_of r') = length (reasons_of ?rb) + nat (rl - 1)"
            "\<exists>w. fst (fn w) = Inl x'"
        by blast
      have outs_ne: "outs \<noteq> []" using ih(3) by auto
      have dl: "delays r' = delays b
               @ map (\<lambda>j. if exponentialBackoff opts = Some True then d * j else d)
                   [retries opts - rl + 1 .. retries opts]"
      proof -
        have "[retries opts - rl + 1 .. retries opts]
                = (retries opts - rl + 1) # [retries opts - (rl - 1) + 1 .. retries opts]"
          using rlpos by (subst upto_rec1) (simp_all add: algebra_simps)
        then show ?thesis
          by (simp add: ih(9) withDelay_def withRetryReason_def
              withAttempt_def Let_def calculateDelay_def)
      qed
      have fc: "fn_calls (snd st') = fn_calls (snd st) @ (Inl x # outs)"
        using ih(2) r2 s3 st0 by simp
      have cc: "onComplete_calls (snd st') = onComplete_calls (snd st) @ hook_calls opts r'"
        using ih(5) r3 s4 st0 by simp
      have rest: "attempts r' = attempts b + rl + 1"
        "length (errors r') = length (errors b) + nat rl + 1"
        "timedOut r' = timedOut b" "startTime r' = startTime b"
        "length (reasons_of r') = length (reasons_of b) + nat rl"
        using ih(6,7,11,12,14) rlpos
        by (simp_all add: withDelay_def withAttempt_def
            reasons_of_def withRetryReason_def Let_def nat_diff_distrib)
      have lo: "length (Inl x # outs) = nat rl + 1" "last (Inl x # outs) = Inl x'"
        using ih(3,4) rlpos outs_ne by (simp_all add: nat_diff_distrib)
      have a': "attempt svc js fn opts rl d None thr b st
                  = (Inl (raised_on_exhaustion opts x'), st')"
        using a ih(1) by simp
      show ?thesis
        apply (rule exI [of _ x'], rule exI [of _ "Inl x # outs"], rule exI [of _ r'],
            rule exI [of _ st'])
        using a' fc lo cc rest(1,2) ih(8) dl ih(10) rest(3,4) ih(13) rest(5) ih(15)
        by - (intro conjI; assumption)
    qed
  qed
qed

text \<open>What \<open>retry\<close> does before the first attempt when the options are valid and no timeout is set.\<close>

lemma retry_start_no_timeout:
  assumes v: "validateOptions opts = Inr ()" and nt: "timeout opts = None"
    and m: "monotonic_clock past svc fn opts"
  obtains t0 st2 where
    "retry svc js fn opts st =
       attempt svc js fn opts (retries opts) (case delay opts of None \<Rightarrow> 0 | Some d \<Rightarrow> d) None
         (case sanitizationThreshold opts of None \<Rightarrow> 500 | Some s \<Rightarrow> s)
         (new_RetryReportBuilder t0) st2"
    "t0 \<le> past (fst st2)" "snd st2 = snd st @ [NowCalled t0]"
proof -
  obtain t0 st2 where n: "call_now svc st = (t0, st2)"
    and n1: "snd st2 = snd st @ [NowCalled t0]" and n3: "t0 \<le> past (fst st2)"
    using call_now_mono [OF m] by blast
  have r: "0 \<le> retries opts"
    using v by (simp add: validateOptions_def split: if_splits)
  have d: "0 \<le> (case delay opts of None \<Rightarrow> 0 | Some d \<Rightarrow> d)"
    using v by (simp add: validateOptions_def split: if_splits option.splits)
  have "retry svc js fn opts st =
       attempt svc js fn opts (retries opts) (case delay opts of None \<Rightarrow> 0 | Some d \<Rightarrow> d) None
         (case sanitizationThreshold opts of None \<Rightarrow> 500 | Some s \<Rightarrow> s)
         (new_RetryReportBuilder t0) st2"
    using r d by (simp add: retry_def v nt n Let_def max_def)
  then show ?thesis using that n1 n3 by blast
qed

lemma sample_service_quiet: "debug_never_throws sample_service"
  by (simp add: debug_never_throws_def sample_service_def quiet_handler_def)

lemma sample_clock_monotonic:
  assumes "\<forall>w. w \<le> snd (fn w)" and "\<forall>h r w. onComplete opts = Some h \<longrightarrow> w \<le> h r w"
  shows "monotonic_clock (\<lambda>w. w) sample_service fn opts"
  using assms
  by (simp add: monotonic_clock_def sample_service_def clock_timer_def quiet_handler_def)

section \<open>The sanitizer\<close>

text \<open>
  C8 (as amended). \<open>sanitizeForLogging\<close> returns the value itself when sanitizing is
  disabled, or the value is \<open>null\<close>, \<open>undefined\<close> or not an object, or its serialized
  length is at most the threshold. When the serialized length \<open>N\<close> exceeds the threshold it
  returns the string \<open>[Large T: N chars]\<close>, square brackets included, where \<open>T\<close> is the
  name of the value's constructor, or \<open>Object\<close> when there is no such name or it is empty.
  When serialization throws (or yields nothing) it returns \<open>[Unstringifiable Object]\<close>,
  square brackets included.
\<close>

theorem sanitizeForLogging_cases:
  "(\<not> enabled \<or> v = JNull \<or> v = JUndefined \<or> \<not> typeof_object v
      \<longrightarrow> sanitizeForLogging js v enabled threshold = v)
   \<and> (enabled \<and> typeof_object v \<and> v \<noteq> JNull \<longrightarrow>
        (\<forall>s. JSON_stringify js v = Json s \<and> int (length s) \<le> threshold
            \<longrightarrow> sanitizeForLogging js v enabled threshold = v)
      \<and> (\<forall>s n. JSON_stringify js v = Json s \<and> int (length s) > threshold
                \<and> constructor_name js v = Some n \<and> n \<noteq> []
            \<longrightarrow> sanitizeForLogging js v enabled threshold
                  = JStr (''[Large '' @ n @ '': '' @ js_num (int (length s)) @ '' chars]''))
      \<and> (\<forall>s. JSON_stringify js v = Json s \<and> int (length s) > threshold
                \<and> (constructor_name js v = None \<or> constructor_name js v = Some [])
            \<longrightarrow> sanitizeForLogging js v enabled threshold
                  = JStr (''[Large Object: '' @ js_num (int (length s)) @ '' chars]''))
      \<and> (\<forall>x. JSON_stringify js v = JsonThrows x
            \<longrightarrow> sanitizeForLogging js v enabled threshold = JStr ''[Unstringifiable Object]'')
      \<and> (JSON_stringify js v = JsonUndefined
            \<longrightarrow> sanitizeForLogging js v enabled threshold = JStr ''[Unstringifiable Object]''))"
  by (cases v) (auto simp: sanitizeForLogging_def)

text \<open>
  The theorem at work: a disabled sanitizer, a small object, a large object of class
  \<open>CustomClass\<close>, a large object without constructor, and a circular object.
\<close>

theorem sanitizeForLogging_cases_witness:
  "sanitizeForLogging sample_js (JObject 1) False 0 = JObject 1
   \<and> sanitizeForLogging sample_js (JObject 1) True 500 = JObject 1
   \<and> sanitizeForLogging sample_js (JObject 3) True 1 = JStr ''[Large CustomClass: 2 chars]''
   \<and> sanitizeForLogging sample_js (JObject 2) True 1 = JStr ''[Large Object: 2 chars]''
   \<and> sanitizeForLogging sample_js (JObject 0) True 500 = JStr ''[Unstringifiable Object]''"
proof -
  have j: "JSON_stringify sample_js (JObject (Suc 0)) = Json ''{}''"
    "JSON_stringify sample_js (JObject 2) = Json ''{}''"
    "JSON_stringify sample_js (JObject 3) = Json ''{}''"
    "JSON_stringify sample_js (JObject 0)
       = JsonThrows (JError (Error ''TypeError'' ''Converting circular structure to JSON'' None))"
    and c: "constructor_name sample_js (JObject 3) = Some ''CustomClass''"
    "constructor_name sample_js (JObject 2) = None"
    by (simp_all add: sample_js_def)
  have n: "js_num 2 = ''2''"
    by (simp add: js_num_def nat_digits.simps)
  from sanitizeForLogging_cases [of False "JObject 1" sample_js 0]
    sanitizeForLogging_cases [of True "JObject 1" sample_js 500]
    sanitizeForLogging_cases [of True "JObject 3" sample_js 1]
    sanitizeForLogging_cases [of True "JObject 2" sample_js 1]
    sanitizeForLogging_cases [of True "JObject 0" sample_js 500]
  show ?thesis
    by (simp add: j c n)
qed

text \<open>
  C8 as it is written does not hold: the two placeholders carry square brackets, so the
  circular object is not sanitized to the string \<open>Unstringifiable Object\<close>, and the
  large object is not sanitized to \<open>Large Object: 2 chars\<close>.
\<close>

theorem sanitizeForLogging_placeholder_counterexample:
  "sanitizeForLogging sample_js (JObject 0) True 500 \<noteq> JStr ''Unstringifiable Object''
   \<and> sanitizeForLogging sample_js (JObject 0) True 500 = JStr ''[Unstringifiable Object]''
   \<and> sanitizeForLogging sample_js (JObject 2) True 1 \<noteq> JStr ''Large Object: 2 chars''
   \<and> sanitizeForLogging sample_js (JObject 2) True 1 = JStr ''[Large Object: 2 chars]''"
  by (simp add: sanitizeForLogging_def sample_js_def js_num_def nat_digits.simps)

section \<open>Validation of the options\<close>

text \<open>
  C5. With \<open>retries < 0\<close>, or a delay that is present and negative, or a timeout that is
  present and not positive, or a sanitization threshold that is present and negative,
  \<open>retry\<close> rejects with a \<open>RetryConfigurationError\<close> and leaves the world and the
  record of calls as they were: the operation, the timer, the logger and \<open>onComplete\<close>
  are not called, so no start time is read and no report is built.
\<close>

theorem retry_invalid_options:
  assumes "retries opts < 0
           \<or> (\<exists>d. delay opts = Some d \<and> d < 0)
           \<or> (\<exists>t. timeout opts = Some t \<and> t \<le> 0)
           \<or> (\<exists>s. sanitizationThreshold opts = Some s \<and> s < 0)"
  shows "\<exists>msg. retry svc js fn opts st = (Inl (JError (RetryConfigurationError msg None)), st)"
proof -
  from assms have "\<exists>msg. validateOptions opts = Inl (RetryConfigurationError msg None)"
    by (auto simp: validateOptions_def)
  then show ?thesis
    by (auto simp: retry_def)
qed

theorem retry_invalid_options_witness:
  "retries (basic_options (- 1) 0) < 0
   \<and> (\<exists>msg. retry sample_service sample_js always_throws_X (basic_options (- 1) 0) (0, [])
              = (Inl (JError (RetryConfigurationError msg None)), (0, [])))"
proof -
  have h: "retries (basic_options (- 1) 0) < 0"
    by (simp add: basic_options_def)
  then have "retries (basic_options (- 1) 0) < 0
           \<or> (\<exists>d. delay (basic_options (- 1) 0) = Some d \<and> d < 0)
           \<or> (\<exists>t. timeout (basic_options (- 1) 0) = Some t \<and> t \<le> 0)
           \<or> (\<exists>s. sanitizationThreshold (basic_options (- 1) 0) = Some s \<and> s < 0)"
    by simp
  from retry_invalid_options [OF this] h show ?thesis
    by blast
qed

section \<open>An operation that fails on every call\<close>




section \<open>The recorded delays\<close>

text \<open>
  C3 (as amended). Take a policy that passes validation, with no timeout and a completion
  hook, an operation that throws on every invocation and whose every thrown value is
  retryable (\<open>retryOnError\<close> is absent or true of it) and is an instance of \<open>Error\<close> or
  a value that \<open>String\<close> converts, a logger whose \<open>debug\<close> does not throw and a monotonic
  clock. With \<open>d\<close> the configured delay (0 when absent) and
  \<open>n = retries\<close>, the report handed to \<open>onComplete\<close> has exactly \<open>n\<close> delays: they are
  \<open>[d, 2d, \<dots>, n\<cdot>d]\<close> when \<open>exponentialBackoff\<close> is true, and \<open>n\<close> times \<open>d\<close> otherwise.
\<close>

theorem retry_always_failing_delays:
  assumes v: "validateOptions opts = Inr ()"
    and nt: "timeout opts = None"
    and f: "\<forall>w. \<exists>x. fst (fn w) = Inl x \<and> shouldRetry_of opts x
              \<and> ((\<exists>e. x = JError e) \<or> (\<exists>s. js_String js x = Inr s))"
    and q: "debug_never_throws svc" and m: "monotonic_clock past svc fn opts"
    and h: "onComplete opts = Some hook"
  shows "\<exists>r. onComplete_calls (snd (snd (retry svc js fn opts (w, [])))) = [r]
     \<and> length (delays r) = nat (retries opts)
     \<and> delays r =
         (if exponentialBackoff opts = Some True
          then map (\<lambda>k. k * (case delay opts of None \<Rightarrow> 0 | Some d \<Rightarrow> d)) [1 .. retries opts]
          else replicate (nat (retries opts)) (case delay opts of None \<Rightarrow> 0 | Some d \<Rightarrow> d))"
proof (rule retry_start_no_timeout [OF v nt m, where js = js and st = "(w, [])"])
  fix t0 st2
  let ?d = "case delay opts of None \<Rightarrow> 0 | Some d \<Rightarrow> d"
  let ?thr = "case sanitizationThreshold opts of None \<Rightarrow> 500 | Some s \<Rightarrow> s"
  let ?b = "new_RetryReportBuilder t0"
  assume s: "retry svc js fn opts (w, []) = attempt svc js fn opts (retries opts) ?d None ?thr ?b st2"
    and p: "t0 \<le> past (fst st2)" and t: "snd st2 = snd (w, []) @ [NowCalled t0]"
  have r: "0 \<le> retries opts"
    using v by (simp add: validateOptions_def split: if_splits)
  have pre: "startTime ?b \<le> past (fst st2)" "0 \<le> attempts ?b"
    using p by (simp_all add: new_RetryReportBuilder_def)
  have "\<And>x. (\<exists>e. x = JError e) \<or> (\<exists>s. js_String js x = Inr s) \<Longrightarrow> recorded_error js x \<noteq> None"
    by (auto simp: recorded_error_def split: jsval.splits)
  with f have f': "\<forall>w. \<exists>x. fst (fn w) = Inl x \<and> shouldRetry_of opts x
      \<and> recorded_error js x \<noteq> None"
    by metis
  from attempt_always_failing [OF q m f' r pre, where d = ?d and thr = ?thr]
  obtain x outs r' st' where
    a: "attempt svc js fn opts (retries opts) ?d None ?thr ?b st2
          = (Inl (raised_on_exhaustion opts x), st')"
    "onComplete_calls (snd st') = onComplete_calls (snd st2) @ hook_calls opts r'"
    "delays r' = delays ?b
           @ map (\<lambda>j. if exponentialBackoff opts = Some True then ?d * j else ?d)
               [retries opts - retries opts + 1 .. retries opts]"
    by blast
  have c1: "onComplete_calls (snd (snd (retry svc js fn opts (w, [])))) = [r']"
    using s a(1,2) t h by (simp add: hook_calls_def)
  have c3: "delays r' =
         (if exponentialBackoff opts = Some True
          then map (\<lambda>k. k * ?d) [1 .. retries opts]
          else replicate (nat (retries opts)) ?d)"
    using a(3) r by (simp add: new_RetryReportBuilder_def map_replicate_const mult.commute)
  then have c2: "length (delays r') = nat (retries opts)"
    using r by simp
  show ?thesis
    apply (rule exI [of _ r'])
    using c1 c2 c3 by - (intro conjI; assumption)
qed

theorem retry_always_failing_delays_witness:
  "\<exists>r. onComplete_calls (snd (snd (retry sample_service sample_js always_throws_X
            ((hooked_options 3 100)\<lparr> exponentialBackoff := Some True \<rparr>) (0, [])))) = [r]
     \<and> length (delays r) = 3 \<and> delays r = [100, 200, 300]"
proof -
  let ?opts = "(hooked_options 3 100)\<lparr> exponentialBackoff := Some True \<rparr>"
  have v: "validateOptions ?opts = Inr ()"
    by (simp add: validateOptions_def hooked_options_def basic_options_def)
  have nt: "timeout ?opts = None"
    by (simp add: hooked_options_def basic_options_def)
  have f: "\<forall>w. \<exists>x. fst (always_throws_X w) = Inl x \<and> shouldRetry_of ?opts x
             \<and> ((\<exists>e. x = JError e) \<or> (\<exists>s. js_String sample_js x = Inr s))"
    by (simp add: always_throws_X_def shouldRetry_of_def hooked_options_def basic_options_def)
  have m: "monotonic_clock (\<lambda>w. w) sample_service always_throws_X ?opts"
    by (rule sample_clock_monotonic)
       (simp_all add: always_throws_X_def hooked_options_def basic_options_def)
  have h: "onComplete ?opts = Some (\<lambda>r w. w)"
    by (simp add: hooked_options_def basic_options_def)
  have u: "[1 .. 3 :: int] = [1, 2, 3]"
    by (simp add: upto.simps)
  from retry_always_failing_delays [OF v nt f sample_service_quiet m h, where w = 0]
  show ?thesis
    by (simp add: hooked_options_def basic_options_def u)
qed

text \<open>
  C3 as it is written does not hold for every valid policy: when \<open>retryOnError\<close> rejects
  the error, no retry is made and no delay is recorded, whatever \<open>retries\<close> is.
\<close>

theorem retry_delays_counterexample:
  "validateOptions never_retry_options = Inr ()
   \<and> exponentialBackoff never_retry_options = Some True
   \<and> delay never_retry_options = Some 10 \<and> retries never_retry_options = 2
   \<and> (\<forall>w. fst (always_throws_X w) = Inl (JError (new_Error ''X'')))
   \<and> map delays (onComplete_calls (snd (snd
        (retry sample_service sample_js always_throws_X never_retry_options (0, []))))) = [[]]
   \<and> map delays (onComplete_calls (snd (snd
        (retry sample_service sample_js always_throws_X never_retry_options (0, [])))))
       \<noteq> [[10, 20]]"
proof -
  have "map delays (onComplete_calls (snd (snd
        (retry sample_service sample_js always_throws_X never_retry_options (0, []))))) = [[]]"
    by code_simp
  then show ?thesis
    by (simp add: validateOptions_def never_retry_options_def hooked_options_def
        basic_options_def always_throws_X_def)
qed

section \<open>The completion hook\<close>

text \<open>
  C4, at an input where the code departs from it. With \<open>retries = 1\<close>, a \<open>retryOnResult\<close>
  that flags \<open>"pending"\<close>, and an operation that returns \<open>"pending"\<close> once and throws
  \<open>Error("X")\<close> afterwards, one call of \<open>retry\<close> calls \<open>onComplete\<close> twice and invokes
  the operation three times: the second attempt is awaited inside the \<open>try\<close> of the first,
  so its final rejection, raised after \<open>onComplete\<close> has run, is caught there and handled
  as if the operation had thrown it.
\<close>

theorem onComplete_called_twice:
  "validateOptions pending_options = Inr ()
   \<and> retries pending_options = 1
   \<and> length (onComplete_calls (snd (snd
        (retry sample_service sample_js pending_then_throws pending_options (0, []))))) = 2
   \<and> length (fn_calls (snd (snd
        (retry sample_service sample_js pending_then_throws pending_options (0, []))))) = 3"
proof -
  have "length (onComplete_calls (snd (snd
        (retry sample_service sample_js pending_then_throws pending_options (0, []))))) = 2"
    by code_simp
  moreover have "length (fn_calls (snd (snd
        (retry sample_service sample_js pending_then_throws pending_options (0, []))))) = 3"
    by code_simp
  ultimately show ?thesis
    by (simp add: validateOptions_def pending_options_def hooked_options_def basic_options_def)
qed

section \<open>A retryable result with no retries left\<close>

text \<open>
  C7, at an input where the code departs from it. With \<open>retries = 0\<close>, a \<open>retryOnResult\<close>
  that is true of every value, and an operation that returns a circular object, \<open>retry\<close>
  does not resolve to that object: the debug message built before \<open>handleSuccess\<close> embeds
  \<open>JSON.stringify(result)\<close>, which throws inside the \<open>try\<close>, and the call rejects with
  a \<open>RetryAttemptsExceededError\<close> that wraps the \<open>TypeError\<close>.
\<close>

theorem retryable_circular_result_rejected:
  "validateOptions always_retry_result_options = Inr ()
   \<and> retries always_retry_result_options = 0
   \<and> fst (returns_circular 0) = Inr (JObject 0)
   \<and> fst (retry sample_service sample_js returns_circular always_retry_result_options (0, []))
       = Inl (JError (RetryAttemptsExceededError
            ''Maximum retry attempts (0) exceeded: Converting circular structure to JSON''
            (Some (Error ''TypeError'' ''Converting circular structure to JSON'' None))))
   \<and> fst (retry sample_service sample_js returns_circular always_retry_result_options (0, []))
       \<noteq> Inr (JObject 0)"
proof -
  have "fst (retry sample_service sample_js returns_circular always_retry_result_options (0, []))
       = Inl (JError (RetryAttemptsExceededError
            ''Maximum retry attempts (0) exceeded: Converting circular structure to JSON''
            (Some (Error ''TypeError'' ''Converting circular structure to JSON'' None))))"
    by code_simp
  then show ?thesis
    by (simp add: validateOptions_def always_retry_result_options_def hooked_options_def
        basic_options_def returns_circular_def)
qed

section \<open>Failures of the logger\<close>

lemma Logger_method_without_failures:
  "Logger_method (lg\<lparr> logHandler := without_failures (logHandler lg) \<rparr>) = Logger_method lg"
proof (intro ext)
  fix m msg w
  show "Logger_method (lg\<lparr> logHandler := without_failures (logHandler lg) \<rparr>) m msg w
          = Logger_method lg m msg w"
    by (cases m) (simp_all add: isLoggable_def tryLog_def without_failures_def split_beta)
qed

lemma Logger_method_never_throws: "fst (Logger_method lg m msg w) = None"
  by (cases m) simp_all

text \<open>
  C9 (as amended). When the logger given to the service is a \<open>Logger\<close> (what
  \<open>Logger.create\<close> returns, as for the exported \<open>retryService\<close>), failures of the sink
  it wraps never leave the engine: none of the logger's methods throws, and \<open>retry\<close>
  returns the same result, leaves the same world and makes the same calls, \<open>onComplete\<close>
  with its report included, as with the same sink with its failures removed.
\<close>

theorem Logger_swallows_failures:
  "retry \<lparr> logger = Logger_method lg, timer = tm \<rparr> js fn opts st
     = retry \<lparr> logger = Logger_method (lg\<lparr> logHandler := without_failures (logHandler lg) \<rparr>),
               timer = tm \<rparr> js fn opts st
   \<and> (\<forall>method msg w. fst (Logger_method lg method msg w) = None)"
  by (simp add: Logger_method_without_failures Logger_method_never_throws)

theorem Logger_swallows_failures_witness:
  "retry \<lparr> logger = Logger_method \<lparr> currentLevel = LTrace, logHandler = throwing_handler \<rparr>,
           timer = clock_timer \<rparr> sample_js always_ok (hooked_options 0 0) (0, [])
     = retry \<lparr> logger = Logger_method
                 \<lparr> currentLevel = LTrace, logHandler = without_failures throwing_handler \<rparr>,
               timer = clock_timer \<rparr> sample_js always_ok (hooked_options 0 0) (0, [])
   \<and> fst (retry \<lparr> logger = Logger_method
                 \<lparr> currentLevel = LTrace, logHandler = throwing_handler \<rparr>,
               timer = clock_timer \<rparr> sample_js always_ok (hooked_options 0 0) (0, []))
       = Inr (JStr ''ok'')"
proof -
  have e: "fst (retry \<lparr> logger = Logger_method
                 \<lparr> currentLevel = LTrace, logHandler = without_failures throwing_handler \<rparr>,
               timer = clock_timer \<rparr> sample_js always_ok (hooked_options 0 0) (0, []))
       = Inr (JStr ''ok'')"
    by code_simp
  from Logger_swallows_failures
    [of "\<lparr> currentLevel = LTrace, logHandler = throwing_handler \<rparr>" clock_timer sample_js
      always_ok "hooked_options 0 0" "(0, [])"]
  have "retry \<lparr> logger = Logger_method \<lparr> currentLevel = LTrace, logHandler = throwing_handler \<rparr>,
           timer = clock_timer \<rparr> sample_js always_ok (hooked_options 0 0) (0, [])
     = retry \<lparr> logger = Logger_method
                 \<lparr> currentLevel = LTrace, logHandler = without_failures throwing_handler \<rparr>,
               timer = clock_timer \<rparr> sample_js always_ok (hooked_options 0 0) (0, [])"
    by simp
  with e show ?thesis by simp
qed

text \<open>
  C9 as it is written does not hold for a log handler given to the service directly: the
  engine calls \<open>debug\<close> with no guard of its own. With a handler whose methods throw, the
  call rejects with the handler's error, and neither the operation nor \<open>onComplete\<close> is
  called, while with a handler that does not throw it resolves to \<open>"ok"\<close>.
\<close>

theorem raw_throwing_logger_counterexample:
  "fst (retry \<lparr> logger = throwing_handler, timer = clock_timer \<rparr> sample_js always_ok
          (hooked_options 0 0) (0, []))
     = Inl (JError (new_Error ''sink failed''))
   \<and> fn_calls (snd (snd (retry \<lparr> logger = throwing_handler, timer = clock_timer \<rparr> sample_js
          always_ok (hooked_options 0 0) (0, [])))) = []
   \<and> onComplete_calls (snd (snd (retry \<lparr> logger = throwing_handler, timer = clock_timer \<rparr>
          sample_js always_ok (hooked_options 0 0) (0, [])))) = []
   \<and> fst (retry \<lparr> logger = quiet_handler, timer = clock_timer \<rparr> sample_js always_ok
          (hooked_options 0 0) (0, []))
     = Inr (JStr ''ok'')
   \<and> length (onComplete_calls (snd (snd (retry \<lparr> logger = quiet_handler, timer = clock_timer \<rparr>
          sample_js always_ok (hooked_options 0 0) (0, []))))) = 1"
  by (intro conjI; code_simp)

section \<open>Delays and retry reasons\<close>



















section \<open>The deadline\<close>

text \<open>
  C2, at an input where the code departs from it. \<open>retry\<close> reads the clock once for the
  deadline, \<open>this.timer.now() + options.timeout\<close>, and once more for the start time of
  the report, so the deadline is not \<open>startTime + timeout\<close> when the clock moves between
  the two readings. With a timer that shows 1000 at its first reading, 1050 at its second
  and 1120 afterwards, a timeout of 100 and an operation that would succeed, the report
  starts at 1050 and the first iteration reads 1120, which does not exceed
  \<open>1050 + 100\<close>; still the call rejects with a \<open>RetryTimeoutError\<close> and the operation is
  never invoked, because the deadline is \<open>1000 + 100\<close>.
\<close>

theorem deadline_not_from_startTime:
  "validateOptions timeout_options = Inr ()
   \<and> timeout timeout_options = Some 100
   \<and> now_calls (snd (snd (retry drifting_service sample_js always_ok timeout_options (0, []))))
       = [1000, 1050, 1120, 1120]
   \<and> map startTime (onComplete_calls (snd (snd
        (retry drifting_service sample_js always_ok timeout_options (0, []))))) = [1050]
   \<and> map timedOut (onComplete_calls (snd (snd
        (retry drifting_service sample_js always_ok timeout_options (0, []))))) = [Some True]
   \<and> fst (retry drifting_service sample_js always_ok timeout_options (0, []))
       = Inl (JError (RetryTimeoutError ''Retry timeout exceeded'' None))
   \<and> fn_calls (snd (snd (retry drifting_service sample_js always_ok timeout_options (0, []))))
       = []
   \<and> \<not> (1120 > (1050 :: int) + 100)"
proof -
  have "now_calls (snd (snd (retry drifting_service sample_js always_ok timeout_options (0, []))))
       = [1000, 1050, 1120, 1120]"
    by code_simp
  moreover have "map startTime (onComplete_calls (snd (snd
        (retry drifting_service sample_js always_ok timeout_options (0, []))))) = [1050]"
    by code_simp
  moreover have "map timedOut (onComplete_calls (snd (snd
        (retry drifting_service sample_js always_ok timeout_options (0, []))))) = [Some True]"
    by code_simp
  moreover have "fst (retry drifting_service sample_js always_ok timeout_options (0, []))
       = Inl (JError (RetryTimeoutError ''Retry timeout exceeded'' None))"
    by code_simp
  moreover have
    "fn_calls (snd (snd (retry drifting_service sample_js always_ok timeout_options (0, []))))
       = []"
    by code_simp
  ultimately show ?thesis
    by (simp add: validateOptions_def timeout_options_def hooked_options_def basic_options_def)
qed

section \<open>Thrown values that are not instances of Error\<close>

text \<open>
  C6, at an input where the code departs from it. \<open>handleError\<close> calls \<open>withError\<close>
  before it decides what to raise, and \<open>withError\<close> evaluates \<open>String(error)\<close> for a
  value that is not an instance of \<open>Error\<close>. With \<open>retries = 0\<close> and an operation that
  throws the object made by \<open>Object.create(null)\<close>, \<open>String\<close> throws a \<open>TypeError\<close>:
  \<open>retry\<close> rejects with that \<open>TypeError\<close> and not with the object the operation threw,
  after one invocation, and \<open>onComplete\<close> is not called. The same happens when
  \<open>retryOnError\<close> is present and rejects the object. A thrown string, which \<open>String\<close>
  converts, is re-raised as it is and recorded as \<open>new Error("X")\<close>.
\<close>

theorem wrapping_alters_raised_value:
  "validateOptions (hooked_options 0 0 :: int RetryOptions) = Inr ()
   \<and> (\<forall>w. fst (always_throws_bare_object w) = Inl (JObject 2))
   \<and> fst (retry sample_service sample_js always_throws_bare_object (hooked_options 0 0) (0, []))
       = Inl (JError (Error ''TypeError'' ''Cannot convert object to primitive value'' None))
   \<and> fst (retry sample_service sample_js always_throws_bare_object (hooked_options 0 0) (0, []))
       \<noteq> Inl (JObject 2)
   \<and> fn_calls (snd (snd (retry sample_service sample_js always_throws_bare_object
        (hooked_options 0 0) (0, [])))) = [Inl (JObject 2)]
   \<and> onComplete_calls (snd (snd (retry sample_service sample_js always_throws_bare_object
        (hooked_options 0 0) (0, [])))) = []
   \<and> retryOnError never_retry_options = Some (\<lambda>e. False)
   \<and> fst (retry sample_service sample_js always_throws_bare_object never_retry_options (0, []))
       = Inl (JError (Error ''TypeError'' ''Cannot convert object to primitive value'' None))
   \<and> onComplete_calls (snd (snd (retry sample_service sample_js always_throws_bare_object
        never_retry_options (0, [])))) = []
   \<and> fst (retry sample_service sample_js always_throws_string (hooked_options 0 0) (0, []))
       = Inl (JStr ''X'')
   \<and> map errors (onComplete_calls (snd (snd (retry sample_service sample_js always_throws_string
        (hooked_options 0 0) (0, []))))) = [[new_Error ''X'']]"
proof -
  have "fst (retry sample_service sample_js always_throws_bare_object (hooked_options 0 0) (0, []))
       = Inl (JError (Error ''TypeError'' ''Cannot convert object to primitive value'' None))"
    by code_simp
  moreover have "fn_calls (snd (snd (retry sample_service sample_js always_throws_bare_object
        (hooked_options 0 0) (0, [])))) = [Inl (JObject 2)]"
    by code_simp
  moreover have "onComplete_calls (snd (snd (retry sample_service sample_js
        always_throws_bare_object (hooked_options 0 0) (0, [])))) = []"
    by code_simp
  moreover have
    "fst (retry sample_service sample_js always_throws_bare_object never_retry_options (0, []))
       = Inl (JError (Error ''TypeError'' ''Cannot convert object to primitive value'' None))"
    by code_simp
  moreover have "onComplete_calls (snd (snd (retry sample_service sample_js
        always_throws_bare_object never_retry_options (0, [])))) = []"
    by code_simp
  moreover have
    "fst (retry sample_service sample_js always_throws_string (hooked_options 0 0) (0, []))
       = Inl (JStr ''X'')"
    by code_simp
  moreover have "map errors (onComplete_calls (snd (snd (retry sample_service sample_js
        always_throws_string (hooked_options 0 0) (0, []))))) = [[new_Error ''X'']]"
    by code_simp
  ultimately show ?thesis
    by (simp add: validateOptions_def never_retry_options_def hooked_options_def
        basic_options_def always_throws_bare_object_def)
qed

end
